theory Spec2Isabelle
  imports Main
begin

section \<open>Python values and the input check\<close>

text \<open>
  The sensor list of \<open>simulate_fsm_quantum\<close> is an untyped Python list. Its elements are
  modelled by the value kinds that meet the membership test \<open>v not in (0, 1)\<close> and the
  comparison \<open>val == 0\<close> differently: integers, booleans (a subclass of int in Python,
  \<open>True == 1\<close> and \<open>False == 0\<close>), strings and \<open>None\<close>. Floating-point elements are not
  modelled.
\<close>

datatype pyval = PInt int | PBool bool | PStr string | PNone

text \<open>Python's \<open>==\<close> on these values.\<close>

fun py_eq :: "pyval \<Rightarrow> pyval \<Rightarrow> bool" where
  "py_eq (PInt a) (PInt b) = (a = b)"
| "py_eq (PInt a) (PBool b) = (a = (if b then 1 else 0))"
| "py_eq (PBool a) (PInt b) = ((if a then 1 else 0) = b)"
| "py_eq (PBool a) (PBool b) = (a = b)"
| "py_eq (PStr a) (PStr b) = (a = b)"
| "py_eq PNone PNone = True"
| "py_eq _ _ = False"

text \<open>\<open>v in t\<close> for a tuple \<open>t\<close>: \<open>v\<close> equals some element of \<open>t\<close>.\<close>

definition py_in :: "pyval \<Rightarrow> pyval list \<Rightarrow> bool" where
  "py_in v t = list_ex (\<lambda>x. py_eq v x) t"

datatype error =
    ValueError string
  | OSError
  | VisualizationError
  | BackendError

section \<open>The circuit\<close>

text \<open>
  A \<open>QuantumCircuit(9, 3)\<close> is a number of qubits, a number of classical bits and the list
  of instructions appended so far. The program appends three kinds of instruction:
  \<open>x\<close>, \<open>mcx\<close> and \<open>measure\<close>; \<open>measure\<close> on lists of qubits and classical bits appends one
  measurement per pair. The library raises on an index outside the registers; the program
  passes only the literals 0..8 and the loop indices of a list of length six, which
  \<open>build_circuit_in_range\<close> below shows to be inside.
\<close>

datatype instruction = XGate nat | MCXGate "nat list" nat | Measure nat nat

record QuantumCircuit =
  num_qubits :: nat
  num_clbits :: nat
  data :: "instruction list"

definition new_circuit :: "nat \<Rightarrow> nat \<Rightarrow> QuantumCircuit" where
  "new_circuit n m = \<lparr>num_qubits = n, num_clbits = m, data = []\<rparr>"

definition qc_x :: "QuantumCircuit \<Rightarrow> nat \<Rightarrow> QuantumCircuit" where
  "qc_x qc i = qc\<lparr>data := data qc @ [XGate i]\<rparr>"

definition qc_mcx :: "QuantumCircuit \<Rightarrow> nat list \<Rightarrow> nat \<Rightarrow> QuantumCircuit" where
  "qc_mcx qc cs t = qc\<lparr>data := data qc @ [MCXGate cs t]\<rparr>"

definition qc_measure :: "QuantumCircuit \<Rightarrow> nat list \<Rightarrow> nat list \<Rightarrow> QuantumCircuit" where
  "qc_measure qc qs cs = qc\<lparr>data := data qc @ map (\<lambda>(q, c). Measure q c) (zip qs cs)\<rparr>"

text \<open>The loop \<open>for i, val in enumerate(sensors): if val == 0: qc.x(i)\<close>.\<close>

fun x_loop :: "QuantumCircuit \<Rightarrow> (nat \<times> pyval) list \<Rightarrow> QuantumCircuit" where
  "x_loop qc [] = qc"
| "x_loop qc ((i, val) # rest) =
     x_loop (if py_eq val (PInt 0) then qc_x qc i else qc) rest"

definition build_circuit :: "pyval list \<Rightarrow> QuantumCircuit" where
  "build_circuit sensors =
     (let qc = new_circuit 9 3;
          qc = x_loop qc (enumerate 0 sensors);
          qc = qc_mcx qc [0, 1, 2, 3, 4, 5] 6;
          qc = qc_measure qc [6, 7, 8] [2, 1, 0]
      in qc)"

fun in_range :: "QuantumCircuit \<Rightarrow> instruction \<Rightarrow> bool" where
  "in_range qc (XGate i) = (i < num_qubits qc)"
| "in_range qc (MCXGate cs t) = (list_all (\<lambda>k. k < num_qubits qc) cs \<and> t < num_qubits qc)"
| "in_range qc (Measure q c) = (q < num_qubits qc \<and> c < num_clbits qc)"

section \<open>The simulator on computational basis states\<close>

text \<open>
  The backend is an external library. Every shot starts in the state where all qubits and
  all classical bits are 0. The three instructions the program uses map a computational
  basis state to a computational basis state: \<open>x\<close> flips one qubit, \<open>mcx\<close> flips its target
  when all its controls are 1, and measuring a qubit of a basis state copies its bit into
  the classical bit. So a shot is modelled as a run over a pair of bit lists (qubits,
  classical bits), and \<open>transpile\<close> as the identity on the instruction list. The key of a
  shot in the counts is the classical register written with the highest bit first.
\<close>

type_synonym machine = "bool list \<times> bool list"

fun exec :: "instruction \<Rightarrow> machine \<Rightarrow> machine" where
  "exec (XGate i) (q, c) = (q[i := \<not> q ! i], c)"
| "exec (MCXGate cs t) (q, c) = ((if list_all (\<lambda>k. q ! k) cs then q[t := \<not> q ! t] else q), c)"
| "exec (Measure qb cb) (q, c) = (q, c[cb := q ! qb])"

definition run_shot :: "QuantumCircuit \<Rightarrow> machine" where
  "run_shot qc =
     fold exec (data qc) (replicate (num_qubits qc) False, replicate (num_clbits qc) False)"

definition bitchar :: "bool \<Rightarrow> char" where
  "bitchar b = (if b then CHR ''1'' else CHR ''0'')"

definition bitstring :: "bool list \<Rightarrow> string" where
  "bitstring c = map bitchar (rev c)"

definition shot_label :: "QuantumCircuit \<Rightarrow> string" where
  "shot_label qc = bitstring (snd (run_shot qc))"

text \<open>
  The counts dictionary, as an association list in insertion order: each shot's key is
  counted once.
\<close>

type_synonym counts = "(string \<times> int) list"

fun incr :: "string \<Rightarrow> counts \<Rightarrow> counts" where
  "incr k [] = [(k, 1)]"
| "incr k ((k', n) # rest) = (if k = k' then (k', n + 1) # rest else (k', n) # incr k rest)"

definition tally :: "string list \<Rightarrow> counts" where
  "tally outcomes = fold incr outcomes []"

definition get_counts :: "QuantumCircuit \<Rightarrow> int \<Rightarrow> counts" where
  "get_counts qc shots = tally (replicate (nat shots) (shot_label qc))"

section \<open>The world outside: directories, files and open figures\<close>

text \<open>
  The effects of the program are on the file system (the directories and files that
  exist, by path) and on pyplot's registry of open figures (their numbers, in order of
  creation). Whether an external call succeeds is the environment's choice: creating an
  absent directory, drawing the circuit, writing an image to a path, writing an image
  format other than png, running the backend, plotting a histogram. A call that fails raises and leaves the world as it was. In an
  interactive session \<open>plt.show()\<close> returns once the user has closed the windows, which
  destroys the figures shown; otherwise it does nothing. Paths are POSIX paths, and only
  the directory asked for is tracked, not the parents \<open>os.makedirs\<close> creates on the way.
  The three \<open>print\<close> calls are left out.
\<close>

record world =
  dirs :: "string set"
  files :: "string set"
  figs :: "nat list"

record env =
  can_mkdir :: "string \<Rightarrow> bool"
  drawer_ok :: bool
  can_write :: "string \<Rightarrow> bool"
  format_ok :: "string \<Rightarrow> bool"
  backend_ok :: bool
  plot_ok :: bool
  interactive :: bool

text \<open>\<open>os.makedirs(outdir, exist_ok=True)\<close>: an existing directory is accepted as it is.\<close>

definition ensure_outdir :: "env \<Rightarrow> world \<Rightarrow> string \<Rightarrow> (error + string) \<times> world" where
  "ensure_outdir e w outdir =
     (if outdir \<in> dirs w then (Inr outdir, w)
      else if can_mkdir e outdir then (Inr outdir, w\<lparr>dirs := insert outdir (dirs w)\<rparr>)
      else (Inl OSError, w))"

definition os_path_join :: "string \<Rightarrow> string \<Rightarrow> string" where
  "os_path_join a b =
     (if b \<noteq> [] \<and> hd b = CHR ''/'' then b
      else if a = [] \<or> last a = CHR ''/'' then a @ b
      else a @ ''/'' @ b)"

text \<open>A new pyplot figure gets the number after the highest one open, or 1.\<close>

definition next_num :: "nat list \<Rightarrow> nat" where
  "next_num ns = Suc (fold max ns 0)"

definition plt_figure :: "world \<Rightarrow> nat \<times> world" where
  "plt_figure w = (next_num (figs w), w\<lparr>figs := figs w @ [next_num (figs w)]\<rparr>)"

definition circuit_drawer :: "env \<Rightarrow> world \<Rightarrow> QuantumCircuit \<Rightarrow> (error + nat) \<times> world" where
  "circuit_drawer e w qc =
     (if drawer_ok e then (case plt_figure w of (n, w') \<Rightarrow> (Inr n, w'))
      else (Inl VisualizationError, w))"

definition plot_histogram :: "env \<Rightarrow> world \<Rightarrow> (error + nat) \<times> world" where
  "plot_histogram e w =
     (if plot_ok e then (case plt_figure w of (n, w') \<Rightarrow> (Inr n, w'))
      else (Inl VisualizationError, w))"

text \<open>
  \<open>os.path.splitext\<close> looks at the last component of a path only: the extension starts
  at its last dot, unless nothing but dots comes before that dot.
\<close>

definition basename :: "string \<Rightarrow> string" where
  "basename p = rev (takeWhile (\<lambda>c. c \<noteq> CHR ''/'') (rev p))"

definition ext_of_name :: "string \<Rightarrow> string" where
  "ext_of_name b =
     (let sfx = rev (takeWhile (\<lambda>c. c \<noteq> CHR ''.'') (rev b));
          stem = take (length b - length sfx - 1) b
      in if CHR ''.'' \<in> set b \<and> list_ex (\<lambda>c. c \<noteq> CHR ''.'') stem then CHR ''.'' # sfx
         else [])"

definition splitext_ext :: "string \<Rightarrow> string" where
  "splitext_ext p = ext_of_name (basename p)"

definition rstrip_dots :: "string \<Rightarrow> string" where
  "rstrip_dots p = rev (dropWhile (\<lambda>c. c = CHR ''.'') (rev p))"

text \<open>
  \<open>fig.savefig(path, ...)\<close> takes the image format from the extension of the path. A path
  without one is written in the default format, png, to the path with its trailing dots
  replaced by \<open>.png\<close>; so the file written need not be the path passed. A format
  other than png is written if the environment supports it, and raises a \<open>ValueError\<close>
  (its message abridged here) if not.
\<close>

definition savefig_target :: "string \<Rightarrow> string" where
  "savefig_target path =
     (if drop 1 (splitext_ext path) = [] then rstrip_dots path @ ''.png'' else path)"

definition savefig :: "env \<Rightarrow> world \<Rightarrow> nat \<Rightarrow> string \<Rightarrow> (error + unit) \<times> world" where
  "savefig e w fig path =
     (let fmt = drop 1 (splitext_ext path)
      in if fmt \<noteq> [] \<and> fmt \<noteq> ''png'' \<and> \<not> format_ok e fmt
         then (Inl (ValueError (''Format '' @ fmt @ '' is not supported'')), w)
         else if can_write e (savefig_target path)
         then (Inr (), w\<lparr>files := insert (savefig_target path) (files w)\<rparr>)
         else (Inl OSError, w))"

text \<open>
  A path lies in a directory when it is that directory joined with the path's own last
  component.
\<close>

definition in_dir :: "string \<Rightarrow> string \<Rightarrow> bool" where
  "in_dir d p = (basename p \<noteq> [] \<and> p = os_path_join d (basename p))"

definition plt_close :: "world \<Rightarrow> nat \<Rightarrow> world" where
  "plt_close w fig = w\<lparr>figs := removeAll fig (figs w)\<rparr>"

definition plt_show :: "env \<Rightarrow> world \<Rightarrow> world" where
  "plt_show e w = (if interactive e then w\<lparr>figs := []\<rparr> else w)"

text \<open>
  \<open>backend.run(tqc, shots=shots).result().get_counts(tqc)\<close>. The shot count is a positive
  integer; the backend is taken to reject any other.
\<close>

definition backend_run :: "env \<Rightarrow> QuantumCircuit \<Rightarrow> int \<Rightarrow> error + counts" where
  "backend_run e qc shots =
     (if backend_ok e \<and> 0 < shots then Inr (get_counts qc shots) else Inl BackendError)"

section \<open>The two entry points\<close>

definition simulate_fsm_quantum ::
  "env \<Rightarrow> world \<Rightarrow> pyval list \<Rightarrow> int \<Rightarrow> string \<Rightarrow> string \<Rightarrow> bool
     \<Rightarrow> (error + counts \<times> string \<times> string) \<times> world" where
  "simulate_fsm_quantum e w sensors shots tag outdir show =
     (if length sensors \<noteq> 6 \<or> list_ex (\<lambda>v. \<not> py_in v [PInt 0, PInt 1]) sensors
      then (Inl (ValueError ''sensors harus list panjang 6, tiap elemen 0 atau 1.''), w)
      else
       (case ensure_outdir e w outdir of
          (Inl err, w1) \<Rightarrow> (Inl err, w1)
        | (Inr outdir', w1) \<Rightarrow>
           (let qc = build_circuit sensors;
                circuit_path = os_path_join outdir' (''circuit_'' @ tag @ ''.png'')
            in (case circuit_drawer e w1 qc of
                  (Inl err, w2) \<Rightarrow> (Inl err, w2)
                | (Inr fig_circ, w2) \<Rightarrow>
                   (case savefig e w2 fig_circ circuit_path of
                      (Inl err, w3) \<Rightarrow> (Inl err, w3)
                    | (Inr u, w3) \<Rightarrow>
                       (let w4 = plt_close w3 fig_circ
                        in (case backend_run e qc shots of
                              Inl err \<Rightarrow> (Inl err, w4)
                            | Inr cnts \<Rightarrow>
                               (let hist_path = os_path_join outdir' (''hist_'' @ tag @ ''.png'')
                                in (case plot_histogram e w4 of
                                      (Inl err, w5) \<Rightarrow> (Inl err, w5)
                                    | (Inr fig_hist, w5) \<Rightarrow>
                                       (case savefig e w5 fig_hist hist_path of
                                          (Inl err, w6) \<Rightarrow> (Inl err, w6)
                                        | (Inr u', w6) \<Rightarrow>
                                           (let w7 = (if show then plt_show e w6 else w6);
                                                w8 = plt_close w7 fig_hist
                                            in (Inr (cnts, circuit_path, hist_path), w8))))))))))))"

definition save_summary_hist ::
  "env \<Rightarrow> world \<Rightarrow> (string \<times> counts) list \<Rightarrow> string \<Rightarrow> string \<Rightarrow> (error + string) \<times> world" where
  "save_summary_hist e w counts_dict outdir filename =
     (case ensure_outdir e w outdir of
        (Inl err, w1) \<Rightarrow> (Inl err, w1)
      | (Inr outdir', w1) \<Rightarrow>
         (let path = os_path_join outdir' filename
          in case plt_figure w1 of
               (fig0, w2) \<Rightarrow>
                 (case plot_histogram e w2 of
                    (Inl err, w3) \<Rightarrow> (Inl err, w3)
                  | (Inr fig, w3) \<Rightarrow>
                      (case savefig e w3 fig path of
                         (Inl err, w4) \<Rightarrow> (Inl err, w4)
                       | (Inr u, w4) \<Rightarrow> (Inr path, plt_close w4 fig)))))"

text \<open>
  The calls that leave every keyword argument out:
  \<open>shots=1024, tag="case", outdir="outputs", show=False\<close> and
  \<open>outdir="outputs", filename="summary_hist.png"\<close>.
\<close>

definition simulate_fsm_quantum_default ::
  "env \<Rightarrow> world \<Rightarrow> pyval list \<Rightarrow> (error + counts \<times> string \<times> string) \<times> world" where
  "simulate_fsm_quantum_default e w sensors =
     simulate_fsm_quantum e w sensors 1024 ''case'' ''outputs'' False"

definition save_summary_hist_default ::
  "env \<Rightarrow> world \<Rightarrow> (string \<times> counts) list \<Rightarrow> (error + string) \<times> world" where
  "save_summary_hist_default e w counts_dict =
     save_summary_hist e w counts_dict ''outputs'' ''summary_hist.png''"

text \<open>
  An environment in which every external call succeeds, one in which the backend fails,
  one in which no image can be written, and the world before the first run.
\<close>

definition env_ok :: env where
  "env_ok = \<lparr>can_mkdir = (\<lambda>_. True), drawer_ok = True, can_write = (\<lambda>_. True),
             format_ok = (\<lambda>_. True), backend_ok = True, plot_ok = True,
             interactive = False\<rparr>"

definition env_backend_down :: env where
  "env_backend_down = env_ok\<lparr>backend_ok := False\<rparr>"

definition env_read_only :: env where
  "env_read_only = env_ok\<lparr>can_write := (\<lambda>_. False)\<rparr>"

definition world0 :: world where
  "world0 = \<lparr>dirs = {}, files = {}, figs = []\<rparr>"

text \<open>The key with the strictly highest count, if the counts have one.\<close>

definition is_dominant :: "counts \<Rightarrow> string \<Rightarrow> bool" where
  "is_dominant cnts s =
     (case map_of cnts s of
        None \<Rightarrow> False
      | Some n \<Rightarrow> list_all (\<lambda>(k, m). k = s \<or> m < n) cnts)"


section \<open>What one shot measures\<close>


lemma x_loop_regs:
  "num_qubits (x_loop qc ps) = num_qubits qc \<and> num_clbits (x_loop qc ps) = num_clbits qc"
  by (induction qc ps rule: x_loop.induct) (simp_all add: qc_x_def)

lemma x_loop_data:
  "data (x_loop qc ps) =
     data qc @ map (\<lambda>p. XGate (fst p)) (filter (\<lambda>p. py_eq (snd p) (PInt 0)) ps)"
  by (induction qc ps rule: x_loop.induct) (simp_all add: qc_x_def)

lemma build_circuit_data:
  "data (build_circuit sensors) =
     map (\<lambda>p. XGate (fst p)) (filter (\<lambda>p. py_eq (snd p) (PInt 0)) (enumerate 0 sensors))
     @ [MCXGate [0, 1, 2, 3, 4, 5] 6, Measure 6 2, Measure 7 1, Measure 8 0]"
  by (simp add: build_circuit_def new_circuit_def qc_mcx_def qc_measure_def x_loop_data Let_def)

lemma build_circuit_regs:
  "num_qubits (build_circuit sensors) = 9 \<and> num_clbits (build_circuit sensors) = 3"
  by (simp add: build_circuit_def new_circuit_def qc_mcx_def qc_measure_def x_loop_regs Let_def)

lemma fold_exec_x:
  "fold exec (map (\<lambda>p. XGate (fst p))
        (filter (\<lambda>p. py_eq (snd p) (PInt 0)) (enumerate (length pre) xs)))
      (pre @ replicate (length xs) False @ post, c)
   = (pre @ map (\<lambda>v. py_eq v (PInt 0)) xs @ post, c)"
proof (induction xs arbitrary: pre)
  case Nil
  show ?case by simp
next
  case (Cons x xs)
  have step: "fold exec (map (\<lambda>p. XGate (fst p))
        (filter (\<lambda>p. py_eq (snd p) (PInt 0)) (enumerate (length (pre @ [b])) xs)))
      ((pre @ [b]) @ replicate (length xs) False @ post, c)
   = ((pre @ [b]) @ map (\<lambda>v. py_eq v (PInt 0)) xs @ post, c)" for b
    by (rule Cons.IH)
  show ?case
  proof (cases "py_eq x (PInt 0)")
    case True
    then show ?thesis using step [of True]
      by (simp add: list_update_append nth_append)
  next
    case False
    then show ?thesis using step [of False] by simp
  qed
qed



lemma length_six: "length (sensors::'a list) = 6 \<Longrightarrow> \<exists>a b c d e f. sensors = [a, b, c, d, e, f]"
  by (clarsimp simp: length_Suc_conv eval_nat_numeral)

lemma fold_exec_x_six:
  assumes "length sensors = 6"
  shows "fold exec (map (\<lambda>p. XGate (fst p))
        (filter (\<lambda>p. py_eq (snd p) (PInt 0)) (enumerate 0 sensors)))
      (replicate 9 False, replicate 3 False)
   = (map (\<lambda>v. py_eq v (PInt 0)) sensors @ replicate 3 False, replicate 3 False)"
proof -
  have "replicate 9 False = [] @ replicate (length sensors) False @ replicate 3 False"
    using assms by (simp add: replicate_add [symmetric])
  then show ?thesis
    using fold_exec_x [of "[]" sensors "replicate 3 False" "replicate 3 False"] by simp
qed

lemma run_shot_build:
  assumes "length sensors = 6"
  shows "run_shot (build_circuit sensors) =
     (map (\<lambda>v. py_eq v (PInt 0)) sensors @ [list_all (\<lambda>v. py_eq v (PInt 0)) sensors, False, False],
      [False, False, list_all (\<lambda>v. py_eq v (PInt 0)) sensors])"
proof -
  obtain a b c d e f where s: "sensors = [a, b, c, d, e, f]"
    using length_six [OF assms] by blast
  have m: "fold exec [MCXGate [0, 1, 2, 3, 4, 5] 6, Measure 6 2, Measure 7 1, Measure 8 0]
             ([x0, x1, x2, x3, x4, x5, False, False, False], [False, False, False])
           = ([x0, x1, x2, x3, x4, x5, x0 \<and> x1 \<and> x2 \<and> x3 \<and> x4 \<and> x5, False, False],
              [False, False, x0 \<and> x1 \<and> x2 \<and> x3 \<and> x4 \<and> x5])" for x0 x1 x2 x3 x4 x5
    by (simp add: eval_nat_numeral)
  have "run_shot (build_circuit sensors) =
     fold exec [MCXGate [0, 1, 2, 3, 4, 5] 6, Measure 6 2, Measure 7 1, Measure 8 0]
       (map (\<lambda>v. py_eq v (PInt 0)) sensors @ replicate 3 False, replicate 3 False)"
    by (simp only: run_shot_def build_circuit_data build_circuit_regs fold_append comp_apply
          fold_exec_x_six [OF assms])
  also have "\<dots> = (map (\<lambda>v. py_eq v (PInt 0)) sensors @ [list_all (\<lambda>v. py_eq v (PInt 0)) sensors, False, False],
      [False, False, list_all (\<lambda>v. py_eq v (PInt 0)) sensors])"
    unfolding s using m [of "py_eq a (PInt 0)" "py_eq b (PInt 0)" "py_eq c (PInt 0)"
        "py_eq d (PInt 0)" "py_eq e (PInt 0)" "py_eq f (PInt 0)"]
    by (simp add: eval_nat_numeral)
  finally show ?thesis .
qed

lemma shot_label_build:
  "length sensors = 6 \<Longrightarrow>
   shot_label (build_circuit sensors) =
     (if list_all (\<lambda>v. py_eq v (PInt 0)) sensors then ''100'' else ''000'')"
  by (simp add: shot_label_def run_shot_build bitstring_def bitchar_def)

lemma fold_incr_replicate: "fold incr (replicate n s) [(s, m)] = [(s, m + int n)]"
  by (induction n arbitrary: m) simp_all

lemma tally_replicate: "tally (replicate n s) = (if n = 0 then [] else [(s, int n)])"
proof (cases n)
  case 0
  then show ?thesis by (simp add: tally_def)
next
  case (Suc k)
  then show ?thesis using fold_incr_replicate [of k s 1] by (simp add: tally_def)
qed

lemma get_counts_pos: "0 < shots \<Longrightarrow> get_counts qc shots = [(shot_label qc, shots)]"
  by (simp add: get_counts_def tally_replicate)

lemma build_circuit_in_range:
  "length sensors = 6 \<Longrightarrow>
   list_all (in_range (build_circuit sensors)) (data (build_circuit sensors))"
  by (clarsimp simp: build_circuit_data list_all_iff build_circuit_regs in_set_enumerate_eq)

section \<open>Figure numbers\<close>

lemma fold_max_ge: "a \<le> fold max ns (a::nat)"
proof (induction ns arbitrary: a)
  case Nil
  show ?case by simp
next
  case (Cons n ns)
  have "a \<le> max n a" by simp
  also have "\<dots> \<le> fold max ns (max n a)" by (rule Cons.IH)
  finally show ?case by simp
qed

lemma fold_max_upper: "x \<in> set ns \<Longrightarrow> x \<le> fold max ns (a::nat)"
proof (induction ns arbitrary: a)
  case Nil
  then show ?case by simp
next
  case (Cons n ns)
  show ?case
  proof (cases "x = n")
    case True
    have "x \<le> max n a" using True by simp
    also have "\<dots> \<le> fold max ns (max n a)" by (rule fold_max_ge)
    finally show ?thesis by simp
  next
    case False
    then have "x \<in> set ns" using Cons.prems by simp
    then show ?thesis using Cons.IH by simp
  qed
qed

lemma next_num_fresh: "next_num ns \<notin> set ns"
  using fold_max_upper [of "next_num ns" ns 0] by (auto simp: next_num_def)

section \<open>Paths\<close>

lemma takeWhile_absent: "c \<notin> set n \<Longrightarrow> takeWhile (\<lambda>x. x \<noteq> c) (rev n @ c # r) = rev n"
  by (induction n arbitrary: r rule: rev_induct) auto

lemma basename_append_name:
  "CHR ''/'' \<notin> set n \<Longrightarrow> basename (a @ CHR ''/'' # n) = n"
  by (simp add: basename_def takeWhile_absent)

lemma basename_plain: "CHR ''/'' \<notin> set n \<Longrightarrow> basename n = n"
proof -
  assume "CHR ''/'' \<notin> set n"
  then have tw: "takeWhile (\<lambda>x. x \<noteq> CHR ''/'') (rev n) = rev n"
    by (auto simp: takeWhile_eq_all_conv)
  show ?thesis unfolding basename_def tw by (rule rev_rev_ident)
qed

lemma basename_join:
  assumes "CHR ''/'' \<notin> set n"
  shows "basename (os_path_join a n) = n"
proof -
  have nohd: "\<not> (n \<noteq> [] \<and> hd n = CHR ''/'')"
    using assms by (cases n) auto
  show ?thesis
  proof (cases "a = []")
    case True
    then show ?thesis using nohd assms by (simp add: os_path_join_def basename_plain)
  next
    case False
    then obtain a' c where a: "a = a' @ [c]" by (metis rev_exhaust)
    show ?thesis
    proof (cases "c = CHR ''/''")
      case True
      then show ?thesis
        using nohd assms a basename_append_name [of n a'] by (auto simp: os_path_join_def)
    next
      case False
      then show ?thesis
        using nohd assms a basename_append_name [of n a] by (auto simp: os_path_join_def)
    qed
  qed
qed

lemma basename_png: "basename (x @ ''.png'') = basename x @ ''.png''"
  by (simp add: basename_def)

lemma ext_of_name_png:
  "ext_of_name (b @ ''.png'') = (if list_ex (\<lambda>c. c \<noteq> CHR ''.'') b then ''.png'' else [])"
  by (simp add: ext_of_name_def Let_def)

lemma splitext_png:
  "splitext_ext (x @ ''.png'')
     = (if list_ex (\<lambda>c. c \<noteq> CHR ''.'') (basename x) then ''.png'' else [])"
  by (simp add: splitext_ext_def basename_png ext_of_name_png)

lemma join_png: "\<exists>x. os_path_join a (n @ ''.png'') = x @ ''.png''"
  by (simp add: os_path_join_def)

lemma fmt_of_join_png:
  "drop 1 (splitext_ext (os_path_join a (n @ ''.png''))) = []
   \<or> drop 1 (splitext_ext (os_path_join a (n @ ''.png''))) = ''png''"
proof -
  obtain x where "os_path_join a (n @ ''.png'') = x @ ''.png''"
    using join_png by blast
  then show ?thesis by (simp add: splitext_png)
qed

lemma savefig_png:
  "savefig e w fig (os_path_join a (n @ ''.png''))
     = (if can_write e (savefig_target (os_path_join a (n @ ''.png'')))
        then (Inr (), w\<lparr>files := insert (savefig_target (os_path_join a (n @ ''.png''))) (files w)\<rparr>)
        else (Inl OSError, w))"
  using fmt_of_join_png [of a n] by (auto simp: savefig_def Let_def)

lemma target_plain_png:
  assumes "CHR ''/'' \<notin> set n" and "n \<noteq> []" and "hd n \<noteq> CHR ''.''"
  shows "savefig_target (os_path_join a (n @ ''.png'')) = os_path_join a (n @ ''.png'')"
proof -
  have "CHR ''/'' \<notin> set (n @ ''.png'')" using assms(1) by simp
  then have b: "basename (os_path_join a (n @ ''.png'')) = n @ ''.png''"
    by (rule basename_join)
  have "list_ex (\<lambda>c. c \<noteq> CHR ''.'') n"
    using assms(2,3) by (cases n) simp_all
  then have "splitext_ext (os_path_join a (n @ ''.png'')) = ''.png''"
    by (simp add: splitext_ext_def b ext_of_name_png)
  then show ?thesis by (simp add: savefig_target_def)
qed

lemma in_dir_join:
  "CHR ''/'' \<notin> set n \<Longrightarrow> n \<noteq> [] \<Longrightarrow> in_dir a (os_path_join a n)"
  by (simp add: in_dir_def basename_join)

lemma target_has_ext:
  assumes "CHR ''/'' \<notin> set n" and "drop 1 (splitext_ext n) \<noteq> []"
  shows "savefig_target (os_path_join a n) = os_path_join a n"
proof -
  have "splitext_ext (os_path_join a n) = splitext_ext n"
    using assms(1) by (simp add: splitext_ext_def basename_join basename_plain)
  then show ?thesis using assms(2) by (simp add: savefig_target_def)
qed

lemma savefig_circuit:
  "savefig e w fig (os_path_join a (''circuit_'' @ tag @ ''.png''))
     = (if can_write e (savefig_target (os_path_join a (''circuit_'' @ tag @ ''.png'')))
        then (Inr (),
              w\<lparr>files := insert (savefig_target (os_path_join a (''circuit_'' @ tag @ ''.png'')))
                          (files w)\<rparr>)
        else (Inl OSError, w))"
  using savefig_png [of e w fig a "''circuit_'' @ tag"] by simp

lemma savefig_hist:
  "savefig e w fig (os_path_join a (''hist_'' @ tag @ ''.png''))
     = (if can_write e (savefig_target (os_path_join a (''hist_'' @ tag @ ''.png'')))
        then (Inr (),
              w\<lparr>files := insert (savefig_target (os_path_join a (''hist_'' @ tag @ ''.png'')))
                          (files w)\<rparr>)
        else (Inl OSError, w))"
  using savefig_png [of e w fig a "''hist_'' @ tag"] by simp

lemma target_circuit:
  "CHR ''/'' \<notin> set tag \<Longrightarrow>
   savefig_target (os_path_join a (''circuit_'' @ tag @ ''.png''))
     = os_path_join a (''circuit_'' @ tag @ ''.png'')"
  using target_plain_png [of "''circuit_'' @ tag" a] by simp

lemma target_hist:
  "CHR ''/'' \<notin> set tag \<Longrightarrow>
   savefig_target (os_path_join a (''hist_'' @ tag @ ''.png''))
     = os_path_join a (''hist_'' @ tag @ ''.png'')"
  using target_plain_png [of "''hist_'' @ tag" a] by simp

lemmas path_eval =
  os_path_join_def savefig_target_def splitext_ext_def basename_def ext_of_name_def
  rstrip_dots_def in_dir_def Let_def

section \<open>The pipeline as a chain of decisions\<close>

text \<open>
  Both entry points are straight-line code in which every external call may raise. Flattened,
  each is a chain of tests in the order of the calls; the world of each branch is the
  world at the raise. The two images of \<open>simulate_fsm_quantum\<close> have the extension
  \<open>.png\<close> or none, so their \<open>savefig\<close> never refuses the format.
\<close>

lemma simulate_flat:
  "simulate_fsm_quantum e w sensors shots tag outdir show =
    (if length sensors \<noteq> 6 \<or> (\<exists>v\<in>set sensors. \<not> py_in v [PInt 0, PInt 1])
     then (Inl (ValueError ''sensors harus list panjang 6, tiap elemen 0 atau 1.''), w)
     else if outdir \<notin> dirs w \<and> \<not> can_mkdir e outdir then (Inl OSError, w)
     else if \<not> drawer_ok e
       then (Inl VisualizationError, w\<lparr>dirs := insert outdir (dirs w)\<rparr>)
     else if \<not> can_write e (savefig_target (os_path_join outdir (''circuit_'' @ tag @ ''.png'')))
       then (Inl OSError,
             w\<lparr>dirs := insert outdir (dirs w), figs := figs w @ [next_num (figs w)]\<rparr>)
     else if \<not> (backend_ok e \<and> 0 < shots)
       then (Inl BackendError,
             w\<lparr>dirs := insert outdir (dirs w),
               files := insert (savefig_target (os_path_join outdir (''circuit_'' @ tag @ ''.png''))) (files w)\<rparr>)
     else if \<not> plot_ok e
       then (Inl VisualizationError,
             w\<lparr>dirs := insert outdir (dirs w),
               files := insert (savefig_target (os_path_join outdir (''circuit_'' @ tag @ ''.png''))) (files w)\<rparr>)
     else if \<not> can_write e (savefig_target (os_path_join outdir (''hist_'' @ tag @ ''.png'')))
       then (Inl OSError,
             w\<lparr>dirs := insert outdir (dirs w),
               files := insert (savefig_target (os_path_join outdir (''circuit_'' @ tag @ ''.png''))) (files w),
               figs := figs w @ [next_num (figs w)]\<rparr>)
     else (Inr (get_counts (build_circuit sensors) shots, os_path_join outdir (''circuit_'' @ tag @ ''.png''), os_path_join outdir (''hist_'' @ tag @ ''.png'')),
           w\<lparr>dirs := insert outdir (dirs w),
             files := insert (savefig_target (os_path_join outdir (''hist_'' @ tag @ ''.png'')))
                        (insert (savefig_target (os_path_join outdir (''circuit_'' @ tag @ ''.png''))) (files w)),
             figs := (if show \<and> interactive e then [] else figs w)\<rparr>))"
  unfolding simulate_fsm_quantum_def Let_def savefig_circuit savefig_hist
  by (simp add: ensure_outdir_def circuit_drawer_def plt_figure_def plt_close_def
      backend_run_def plot_histogram_def plt_show_def list_ex_iff next_num_fresh insert_absorb)

lemma summary_flat:
  "save_summary_hist e w counts_dict outdir filename =
    (if outdir \<notin> dirs w \<and> \<not> can_mkdir e outdir then (Inl OSError, w)
     else if \<not> plot_ok e
       then (Inl VisualizationError,
             w\<lparr>dirs := insert outdir (dirs w), figs := figs w @ [next_num (figs w)]\<rparr>)
     else if drop 1 (splitext_ext (os_path_join outdir filename)) \<noteq> []
             \<and> drop 1 (splitext_ext (os_path_join outdir filename)) \<noteq> ''png''
             \<and> \<not> format_ok e (drop 1 (splitext_ext (os_path_join outdir filename)))
       then (Inl (ValueError (''Format '' @ drop 1 (splitext_ext (os_path_join outdir filename))
                                @ '' is not supported'')),
             w\<lparr>dirs := insert outdir (dirs w),
               figs := figs w @ [next_num (figs w), next_num (figs w @ [next_num (figs w)])]\<rparr>)
     else if \<not> can_write e (savefig_target (os_path_join outdir filename))
       then (Inl OSError,
             w\<lparr>dirs := insert outdir (dirs w),
               figs := figs w @ [next_num (figs w), next_num (figs w @ [next_num (figs w)])]\<rparr>)
     else (Inr (os_path_join outdir filename),
           w\<lparr>dirs := insert outdir (dirs w),
             files := insert (savefig_target (os_path_join outdir filename)) (files w),
             figs := removeAll (next_num (figs w @ [next_num (figs w)]))
                       (figs w @ [next_num (figs w)])\<rparr>))"
  by (simp add: save_summary_hist_def ensure_outdir_def plt_figure_def
      savefig_def plt_close_def plot_histogram_def Let_def insert_absorb)

section \<open>Successful runs\<close>

lemma py_in_01: "py_in v [PInt 0, PInt 1] = (py_eq v (PInt 0) \<or> py_eq v (PInt 1))"
  by (simp add: py_in_def)

lemma is_dominant_single: "is_dominant [(s, n)] s"
  by (simp add: is_dominant_def)

lemma simulate_Inr:
  assumes "simulate_fsm_quantum e w sensors shots tag outdir show = (Inr (cnts, cp, hp), w')"
  shows "length sensors = 6"
    and "\<forall>v\<in>set sensors. py_eq v (PInt 0) \<or> py_eq v (PInt 1)"
    and "0 < shots"
    and "cnts = [(shot_label (build_circuit sensors), shots)]"
    and "cp = os_path_join outdir (''circuit_'' @ tag @ ''.png'')"
    and "hp = os_path_join outdir (''hist_'' @ tag @ ''.png'')"
    and "w' = w\<lparr>dirs := insert outdir (dirs w),
                 files := insert (savefig_target hp) (insert (savefig_target cp) (files w)),
                 figs := (if show \<and> interactive e then [] else figs w)\<rparr>"
  using assms
  by (auto simp: simulate_flat py_in_01 get_counts_pos split: if_splits)

lemma simulate_env_ok:
  assumes "length sensors = 6"
    and "\<forall>v\<in>set sensors. py_eq v (PInt 0) \<or> py_eq v (PInt 1)"
    and "0 < shots"
  shows "\<exists>r w'. simulate_fsm_quantum env_ok w sensors shots tag outdir show = (Inr r, w')"
  using assms by (simp add: simulate_flat py_in_01 env_ok_def)

section \<open>The encoding rule\<close>

text \<open>
  C1. For every valid sensor vector (six elements, each equal to 0 or 1) and a positive
  shot count, a run in which every external call succeeds returns, and whenever
  \<open>simulate_fsm_quantum\<close> returns counts, the bitstring with the highest count is
  \<open>100\<close> if all six sensors are 0 and \<open>000\<close> for every other valid vector, the
  all-normal one and every partial-abnormal one included.
\<close>

theorem encoding_rule_dominant:
  assumes "length sensors = 6"
    and "\<forall>v\<in>set sensors. py_eq v (PInt 0) \<or> py_eq v (PInt 1)"
    and "0 < shots"
  shows "(\<exists>r w'. simulate_fsm_quantum env_ok w0 sensors shots tag0 outdir0 show0 = (Inr r, w'))
    \<and> (\<forall>e w tag outdir show cnts cp hp w'.
          simulate_fsm_quantum e w sensors shots tag outdir show = (Inr (cnts, cp, hp), w')
          \<longrightarrow> is_dominant cnts
                (if \<forall>v\<in>set sensors. py_eq v (PInt 0) then ''100'' else ''000''))"
proof (intro conjI allI impI)
  show "\<exists>r w'. simulate_fsm_quantum env_ok w0 sensors shots tag0 outdir0 show0 = (Inr r, w')"
    using assms by (rule simulate_env_ok)
next
  fix e w tag outdir "show" cnts cp hp w'
  assume run: "simulate_fsm_quantum e w sensors shots tag outdir show = (Inr (cnts, cp, hp), w')"
  have "cnts = [(shot_label (build_circuit sensors), shots)]"
    using run by (rule simulate_Inr(4))
  then show "is_dominant cnts (if \<forall>v\<in>set sensors. py_eq v (PInt 0) then ''100'' else ''000'')"
    using assms(1) by (simp add: shot_label_build list_all_iff is_dominant_single)
qed

lemma run_emergency:
  "simulate_fsm_quantum env_ok world0 [PInt 0, PInt 0, PInt 0, PInt 0, PInt 0, PInt 0] 1024
      ''emergency'' ''outputs'' False
   = (Inr ([(''100'', 1024)], ''outputs/circuit_emergency.png'', ''outputs/hist_emergency.png''),
      \<lparr>dirs = {''outputs''},
       files = {''outputs/hist_emergency.png'', ''outputs/circuit_emergency.png''},
       figs = []\<rparr>)"
  by (simp add: simulate_flat py_in_01 env_ok_def world0_def get_counts_pos shot_label_build
      path_eval)

lemma run_normal:
  "simulate_fsm_quantum env_ok world0 [PInt 1, PInt 1, PInt 1, PInt 1, PInt 1, PInt 1] 1024
      ''normal'' ''outputs'' False
   = (Inr ([(''000'', 1024)], ''outputs/circuit_normal.png'', ''outputs/hist_normal.png''),
      \<lparr>dirs = {''outputs''},
       files = {''outputs/hist_normal.png'', ''outputs/circuit_normal.png''},
       figs = []\<rparr>)"
  by (simp add: simulate_flat py_in_01 env_ok_def world0_def get_counts_pos shot_label_build
      path_eval)

theorem encoding_rule_dominant_witness:
  "is_dominant [(''100'', 1024)] ''100'' \<and> is_dominant [(''000'', 1024)] ''000''
   \<and> (0::int) < 1024 \<and> length [PInt 0, PInt 0, PInt 0, PInt 0, PInt 0, PInt 0] = 6"
proof -
  have a: "length [PInt 0, PInt 0, PInt 0, PInt 0, PInt 0, PInt 0] = 6"
    and b: "\<forall>v\<in>set [PInt 0, PInt 0, PInt 0, PInt 0, PInt 0, PInt 0].
              py_eq v (PInt 0) \<or> py_eq v (PInt 1)"
    and c: "length [PInt 1, PInt 1, PInt 1, PInt 1, PInt 1, PInt 1] = 6"
    and d: "\<forall>v\<in>set [PInt 1, PInt 1, PInt 1, PInt 1, PInt 1, PInt 1].
              py_eq v (PInt 0) \<or> py_eq v (PInt 1)"
    and n: "(0::int) < 1024"
    by simp_all
  have "is_dominant [(''100'', 1024)] ''100''"
    using encoding_rule_dominant [OF a b n, of world0 "''emergency''" "''outputs''" False]
      run_emergency
    by fastforce
  moreover have "is_dominant [(''000'', 1024)] ''000''"
    using encoding_rule_dominant [OF c d n, of world0 "''normal''" "''outputs''" False]
      run_normal
    by fastforce
  ultimately show ?thesis by simp
qed

section \<open>Input validation\<close>

text \<open>
  C2. A sensor list whose length is not 6, or which holds a value equal to neither 0 nor
  1, makes \<open>simulate_fsm_quantum\<close> raise its \<open>ValueError\<close> at once: the world
  (directories, files, open figures) is returned as it was, so nothing was created or
  written before the raise. For a valid list that error is never the outcome, whatever
  the environment does.
\<close>

theorem invalid_input_rejected:
  "(length sensors \<noteq> 6 \<or> (\<exists>v\<in>set sensors. \<not> py_eq v (PInt 0) \<and> \<not> py_eq v (PInt 1))
      \<longrightarrow> simulate_fsm_quantum e w sensors shots tag outdir show
            = (Inl (ValueError ''sensors harus list panjang 6, tiap elemen 0 atau 1.''), w))
   \<and> (length sensors = 6 \<and> (\<forall>v\<in>set sensors. py_eq v (PInt 0) \<or> py_eq v (PInt 1))
      \<longrightarrow> (\<forall>msg. fst (simulate_fsm_quantum e w sensors shots tag outdir show)
                  \<noteq> Inl (ValueError msg)))"
  by (auto simp: simulate_flat py_in_01)

theorem invalid_input_rejected_witness:
  "simulate_fsm_quantum env_ok world0 [PInt 0, PInt 1] 1024 ''case'' ''outputs'' False
     = (Inl (ValueError ''sensors harus list panjang 6, tiap elemen 0 atau 1.''), world0)
   \<and> simulate_fsm_quantum env_ok world0 [PInt 0, PInt 1, PInt 2, PInt 0, PStr ''1'', PNone] 1024
        ''case'' ''outputs'' False
     = (Inl (ValueError ''sensors harus list panjang 6, tiap elemen 0 atau 1.''), world0)
   \<and> fst (simulate_fsm_quantum env_ok world0 [PInt 1, PInt 0, PInt 1, PInt 0, PInt 1, PInt 0]
             1024 ''case'' ''outputs'' False)
     \<noteq> Inl (ValueError ''sensors harus list panjang 6, tiap elemen 0 atau 1.'')"
  using invalid_input_rejected [of "[PInt 0, PInt 1]" env_ok world0 1024 "''case''"
      "''outputs''" False]
    invalid_input_rejected [of "[PInt 0, PInt 1, PInt 2, PInt 0, PStr ''1'', PNone]" env_ok
      world0 1024 "''case''" "''outputs''" False]
    invalid_input_rejected [of "[PInt 1, PInt 0, PInt 1, PInt 0, PInt 1, PInt 0]" env_ok
      world0 1024 "''case''" "''outputs''" False]
  by simp

section \<open>Aborted runs\<close>

lemma run_backend_down:
  "simulate_fsm_quantum env_backend_down world0
      [PInt 0, PInt 0, PInt 0, PInt 0, PInt 0, PInt 0] 1024 ''case'' ''outputs'' False
   = (Inl BackendError,
      \<lparr>dirs = {''outputs''}, files = {''outputs/circuit_case.png''}, figs = []\<rparr>)"
  by (simp add: simulate_flat py_in_01 env_backend_down_def env_ok_def world0_def
      path_eval)

text \<open>
  C3, as stated, fails: the circuit image is written before the backend runs, and nothing
  removes it when a later step raises. With a backend that fails, the run on six abnormal
  sensors aborts with the backend's error and leaves \<open>outputs/circuit_case.png\<close>,
  which did not exist before, on disk.
\<close>

theorem no_partial_results_counterexample:
  "fst (simulate_fsm_quantum env_backend_down world0
          [PInt 0, PInt 0, PInt 0, PInt 0, PInt 0, PInt 0] 1024 ''case'' ''outputs'' False)
     = Inl BackendError
   \<and> ''outputs/circuit_case.png'' \<notin> files world0
   \<and> ''outputs/circuit_case.png''
       \<in> files (snd (simulate_fsm_quantum env_backend_down world0
            [PInt 0, PInt 0, PInt 0, PInt 0, PInt 0, PInt 0] 1024 ''case'' ''outputs'' False))"
  by (simp add: run_backend_down) (simp add: world0_def)

text \<open>
  C3, amended. A run that aborts does so at the first failing step, with that step's
  error and without counts, and what earlier steps wrote stays: an abort for invalid
  input leaves the world as it was; the only file an aborted run can have added is the
  image written for \<open>circuit_<tag>.png\<close>, which is that path itself when the tag has no
  slash (the histogram image is never written); and once the circuit image has been
  written, an abort in the simulation or in the histogram export leaves that image and
  the output directory on disk.
\<close>

theorem abort_keeps_earlier_outputs:
  assumes "simulate_fsm_quantum e w sensors shots tag outdir show = (Inl err, w')"
  shows "((\<exists>msg. err = ValueError msg) \<longrightarrow> w' = w)
    \<and> (files w' = files w
        \<or> files w' = insert (savefig_target (os_path_join outdir (''circuit_'' @ tag @ ''.png'')))
                        (files w))
    \<and> (err = BackendError \<longrightarrow>
         files w' = insert (savefig_target (os_path_join outdir (''circuit_'' @ tag @ ''.png'')))
                      (files w)
         \<and> outdir \<in> dirs w')
    \<and> (length sensors = 6 \<and> (\<forall>v\<in>set sensors. py_eq v (PInt 0) \<or> py_eq v (PInt 1))
         \<and> (outdir \<in> dirs w \<or> can_mkdir e outdir) \<and> drawer_ok e
         \<and> can_write e (savefig_target (os_path_join outdir (''circuit_'' @ tag @ ''.png'')))
       \<longrightarrow> files w' = insert (savefig_target (os_path_join outdir (''circuit_'' @ tag @ ''.png'')))
                        (files w)
           \<and> outdir \<in> dirs w')
    \<and> (CHR ''/'' \<notin> set tag \<longrightarrow>
         savefig_target (os_path_join outdir (''circuit_'' @ tag @ ''.png''))
           = os_path_join outdir (''circuit_'' @ tag @ ''.png''))"
proof -
  have "CHR ''/'' \<notin> set tag \<longrightarrow>
         savefig_target (os_path_join outdir (''circuit_'' @ tag @ ''.png''))
           = os_path_join outdir (''circuit_'' @ tag @ ''.png'')"
    using target_circuit [of tag outdir] by blast
  moreover have "((\<exists>msg. err = ValueError msg) \<longrightarrow> w' = w)
    \<and> (files w' = files w
        \<or> files w' = insert (savefig_target (os_path_join outdir (''circuit_'' @ tag @ ''.png'')))
                        (files w))
    \<and> (err = BackendError \<longrightarrow>
         files w' = insert (savefig_target (os_path_join outdir (''circuit_'' @ tag @ ''.png'')))
                      (files w)
         \<and> outdir \<in> dirs w')
    \<and> (length sensors = 6 \<and> (\<forall>v\<in>set sensors. py_eq v (PInt 0) \<or> py_eq v (PInt 1))
         \<and> (outdir \<in> dirs w \<or> can_mkdir e outdir) \<and> drawer_ok e
         \<and> can_write e (savefig_target (os_path_join outdir (''circuit_'' @ tag @ ''.png'')))
       \<longrightarrow> files w' = insert (savefig_target (os_path_join outdir (''circuit_'' @ tag @ ''.png'')))
                        (files w)
           \<and> outdir \<in> dirs w')"
    using assms by (auto simp: simulate_flat py_in_01 split: if_splits)
  ultimately show ?thesis by blast
qed

theorem abort_keeps_earlier_outputs_witness:
  "files \<lparr>dirs = {''outputs''}, files = {''outputs/circuit_case.png''}, figs = []\<rparr>
     = insert (os_path_join ''outputs'' (''circuit_'' @ ''case'' @ ''.png'')) (files world0)
   \<and> ''outputs'' \<in> dirs \<lparr>dirs = {''outputs''}, files = {''outputs/circuit_case.png''}, figs = []\<rparr>"
  using abort_keeps_earlier_outputs [OF run_backend_down] by (simp add: path_eval)

section \<open>Open figures\<close>

lemma run_read_only:
  "simulate_fsm_quantum env_read_only world0
      [PInt 0, PInt 0, PInt 0, PInt 0, PInt 0, PInt 0] 1024 ''case'' ''outputs'' False
   = (Inl OSError, \<lparr>dirs = {''outputs''}, files = {}, figs = [1]\<rparr>)"
  by (simp add: simulate_flat py_in_01 env_read_only_def env_ok_def world0_def
      path_eval next_num_def)

text \<open>
  C4, as stated, fails: the figure is closed by the statement after \<open>savefig\<close>, with no
  \<open>try\<close>/\<open>finally\<close> around it. Where no image can be written, the run on six abnormal
  sensors starts with no figure open, aborts in the first \<open>savefig\<close> and leaves figure 1
  open.
\<close>

theorem figures_released_counterexample:
  "fst (simulate_fsm_quantum env_read_only world0
          [PInt 0, PInt 0, PInt 0, PInt 0, PInt 0, PInt 0] 1024 ''case'' ''outputs'' False)
     = Inl OSError
   \<and> figs world0 = []
   \<and> figs (snd (simulate_fsm_quantum env_read_only world0
          [PInt 0, PInt 0, PInt 0, PInt 0, PInt 0, PInt 0] 1024 ''case'' ''outputs'' False))
     = [1]"
  by (simp add: run_read_only) (simp add: world0_def)

text \<open>
  C4, amended. \<open>simulate_fsm_quantum\<close> closes the circuit figure and the histogram figure
  after their images were saved: after a successful run no figure it opened is open, and
  without \<open>show\<close> the open figures are those of before. \<open>save_summary_hist\<close> closes the
  figure \<open>plot_histogram\<close> returned once its image was saved. No figure is released on a
  failure path: when a \<open>savefig\<close> of \<open>simulate_fsm_quantum\<close> raises, the figure just
  acquired stays open.
\<close>

theorem figures_closed_after_save:
  "(simulate_fsm_quantum e w sensors shots tag outdir show = (Inr r, w')
      \<longrightarrow> set (figs w') \<subseteq> set (figs w) \<and> (\<not> show \<longrightarrow> figs w' = figs w))
   \<and> (save_summary_hist e w counts_dict outdir filename = (Inr p, w'')
      \<longrightarrow> next_num (figs (snd (plt_figure w))) \<notin> set (figs w''))
   \<and> (simulate_fsm_quantum e w sensors shots tag outdir show = (Inl OSError, w')
        \<and> (outdir \<in> dirs w \<or> can_mkdir e outdir)
      \<longrightarrow> figs w' = figs w @ [next_num (figs w)])"
proof (intro conjI impI)
  assume "simulate_fsm_quantum e w sensors shots tag outdir show = (Inr r, w')"
  then show "set (figs w') \<subseteq> set (figs w)"
    by (auto simp: simulate_flat split: if_splits)
next
  assume "simulate_fsm_quantum e w sensors shots tag outdir show = (Inr r, w')" "\<not> show"
  then show "figs w' = figs w"
    by (auto simp: simulate_flat split: if_splits)
next
  assume "save_summary_hist e w counts_dict outdir filename = (Inr p, w'')"
  then show "next_num (figs (snd (plt_figure w))) \<notin> set (figs w'')"
    by (auto simp: summary_flat plt_figure_def split: if_splits)
next
  assume "simulate_fsm_quantum e w sensors shots tag outdir show = (Inl OSError, w')
        \<and> (outdir \<in> dirs w \<or> can_mkdir e outdir)"
  then show "figs w' = figs w @ [next_num (figs w)]"
    by (auto simp: simulate_flat split: if_splits)
qed

lemma run_summary:
  "save_summary_hist env_ok world0 [(''Emergency'', [(''100'', 1024)]), (''Normal'', [(''000'', 1024)])]
      ''outputs'' ''summary_hist.png''
   = (Inr ''outputs/summary_hist.png'',
      \<lparr>dirs = {''outputs''}, files = {''outputs/summary_hist.png''}, figs = [1]\<rparr>)"
  by (simp add: summary_flat env_ok_def world0_def path_eval next_num_def)

theorem figures_closed_after_save_witness:
  "set (figs \<lparr>dirs = {''outputs''},
         files = {''outputs/hist_emergency.png'', ''outputs/circuit_emergency.png''},
         figs = []\<rparr>) \<subseteq> set (figs world0)
   \<and> next_num (figs (snd (plt_figure world0)))
       \<notin> set (figs \<lparr>dirs = {''outputs''}, files = {''outputs/summary_hist.png''}, figs = [1]\<rparr>)
   \<and> figs \<lparr>dirs = {''outputs''}, files = {}, figs = [1]\<rparr>
       = figs world0 @ [next_num (figs world0)]"
proof (intro conjI)
  show "set (figs \<lparr>dirs = {''outputs''},
         files = {''outputs/hist_emergency.png'', ''outputs/circuit_emergency.png''},
         figs = []\<rparr>) \<subseteq> set (figs world0)"
    by (rule figures_closed_after_save
          [THEN conjunct1, THEN mp, THEN conjunct1, OF run_emergency])
next
  show "next_num (figs (snd (plt_figure world0)))
       \<notin> set (figs \<lparr>dirs = {''outputs''}, files = {''outputs/summary_hist.png''}, figs = [1]\<rparr>)"
    by (rule figures_closed_after_save
          [THEN conjunct2, THEN conjunct1, THEN mp, OF run_summary])
next
  have mk: "''outputs'' \<in> dirs world0 \<or> can_mkdir env_read_only ''outputs''"
    by (simp add: env_read_only_def env_ok_def)
  show "figs \<lparr>dirs = {''outputs''}, files = {}, figs = [1]\<rparr>
       = figs world0 @ [next_num (figs world0)]"
    by (rule figures_closed_after_save
          [THEN conjunct2, THEN conjunct2, THEN mp, OF conjI [OF run_read_only mk]])
qed

section \<open>The counts of a successful run\<close>

text \<open>
  C5. Whenever \<open>simulate_fsm_quantum\<close> returns counts for a shot count \<open>shots\<close>, the
  counts add up to \<open>shots\<close> exactly and every key is a string of exactly three
  characters, each \<open>0\<close> or \<open>1\<close>.
\<close>

theorem counts_invariants:
  assumes "simulate_fsm_quantum e w sensors shots tag outdir show = (Inr (cnts, cp, hp), w')"
  shows "sum_list (map snd cnts) = shots
    \<and> (\<forall>k\<in>set (map fst cnts). length k = 3 \<and> set k \<subseteq> {CHR ''0'', CHR ''1''})"
  using simulate_Inr(1) [OF assms] simulate_Inr(4) [OF assms]
  by (simp add: shot_label_build)

theorem counts_invariants_witness:
  "sum_list (map snd [(''100'', 1024::int)]) = 1024
   \<and> length ''100'' = 3 \<and> set ''100'' \<subseteq> {CHR ''0'', CHR ''1''}"
  using counts_invariants [OF run_emergency] by simp

section \<open>Measurement order\<close>

text \<open>
  C6. The measurement step, the last three instructions of every circuit built, reads the
  state qubits into the key from high to low: whatever the state of the nine qubits,
  qubit 6 (the target of the multi-controlled X) gives the leftmost character of the key,
  qubit 7 the middle one and qubit 8 the rightmost. So the emergency state, in which
  only qubit 6 is set, is labelled \<open>100\<close> and not \<open>001\<close>.
\<close>

theorem measurement_order:
  "(length q = 9 \<and> length c = 3 \<longrightarrow>
      bitstring (snd (fold exec (data (qc_measure (new_circuit 9 3) [6, 7, 8] [2, 1, 0])) (q, c)))
        = [bitchar (q ! 6), bitchar (q ! 7), bitchar (q ! 8)])
   \<and> (\<exists>gates. data (build_circuit sensors)
          = gates @ [MCXGate [0, 1, 2, 3, 4, 5] 6]
              @ data (qc_measure (new_circuit 9 3) [6, 7, 8] [2, 1, 0]))
   \<and> shot_label (build_circuit [PInt 0, PInt 0, PInt 0, PInt 0, PInt 0, PInt 0]) = ''100''
   \<and> shot_label (build_circuit [PInt 0, PInt 0, PInt 0, PInt 0, PInt 0, PInt 0]) \<noteq> ''001''"
proof (intro conjI impI)
  assume len: "length q = 9 \<and> length c = 3"
  then obtain c0 c1 c2 where c: "c = [c0, c1, c2]"
    by (auto simp: length_Suc_conv eval_nat_numeral)
  show "bitstring (snd (fold exec (data (qc_measure (new_circuit 9 3) [6, 7, 8] [2, 1, 0])) (q, c)))
        = [bitchar (q ! 6), bitchar (q ! 7), bitchar (q ! 8)]"
    by (simp add: qc_measure_def new_circuit_def c bitstring_def)
next
  show "\<exists>gates. data (build_circuit sensors)
          = gates @ [MCXGate [0, 1, 2, 3, 4, 5] 6]
              @ data (qc_measure (new_circuit 9 3) [6, 7, 8] [2, 1, 0])"
    by (simp add: build_circuit_data qc_measure_def new_circuit_def)
next
  show "shot_label (build_circuit [PInt 0, PInt 0, PInt 0, PInt 0, PInt 0, PInt 0]) = ''100''"
    by (simp add: shot_label_build)
next
  show "shot_label (build_circuit [PInt 0, PInt 0, PInt 0, PInt 0, PInt 0, PInt 0]) \<noteq> ''001''"
    by (simp add: shot_label_build)
qed

theorem measurement_order_witness:
  "bitstring (snd (fold exec (data (qc_measure (new_circuit 9 3) [6, 7, 8] [2, 1, 0]))
      ([False, False, False, False, False, False, True, False, False], [False, False, False])))
     = ''100''
   \<and> bitstring (snd (fold exec (data (qc_measure (new_circuit 9 3) [6, 7, 8] [2, 1, 0]))
      ([False, False, False, False, False, False, False, False, True], [False, False, False])))
     = ''001''"
  using measurement_order
      [of "[False, False, False, False, False, False, True, False, False]"
          "[False, False, False]"]
    measurement_order
      [of "[False, False, False, False, False, False, False, False, True]"
          "[False, False, False]"]
  by (simp add: bitchar_def)

section \<open>Output directory and files\<close>

lemma run_invalid:
  "simulate_fsm_quantum env_ok world0 [PInt 0, PInt 1] 1024 ''case'' ''outputs'' False
   = (Inl (ValueError ''sensors harus list panjang 6, tiap elemen 0 atau 1.''), world0)"
  by (simp add: simulate_flat)

lemma run_summary_no_ext:
  "save_summary_hist env_ok world0 [(''Emergency'', [(''100'', 1024)])] ''outputs'' ''summary''
   = (Inr ''outputs/summary'',
      \<lparr>dirs = {''outputs''}, files = {''outputs/summary.png''}, figs = [1]\<rparr>)"
  by (simp add: summary_flat env_ok_def world0_def path_eval next_num_def)

lemma run_summary_dotdot:
  "save_summary_hist env_ok world0 [(''Emergency'', [(''100'', 1024)])] ''outputs'' ''../evil.png''
   = (Inr ''outputs/../evil.png'',
      \<lparr>dirs = {''outputs''}, files = {''outputs/../evil.png''}, figs = [1]\<rparr>)"
  by (simp add: summary_flat env_ok_def world0_def path_eval next_num_def)

text \<open>
  C7, as stated, fails in three places. An invocation with invalid input returns before
  \<open>ensure_outdir\<close>, so the absent directory \<open>outputs\<close> is not created. For the file name
  \<open>summary\<close>, \<open>save_summary_hist\<close> returns \<open>outputs/summary\<close> while the file written is
  \<open>outputs/summary.png\<close>. For the file name \<open>../evil.png\<close> the path returned and
  written, \<open>outputs/../evil.png\<close>, is not in the directory \<open>outputs\<close>.
\<close>

theorem output_files_counterexample:
  "''outputs'' \<notin> dirs world0
   \<and> ''outputs'' \<notin> dirs (snd (simulate_fsm_quantum env_ok world0 [PInt 0, PInt 1] 1024
                                 ''case'' ''outputs'' False))
   \<and> fst (save_summary_hist env_ok world0 [(''Emergency'', [(''100'', 1024)])]
            ''outputs'' ''summary'') = Inr ''outputs/summary''
   \<and> ''outputs/summary''
       \<notin> files (snd (save_summary_hist env_ok world0 [(''Emergency'', [(''100'', 1024)])]
                      ''outputs'' ''summary''))
   \<and> fst (save_summary_hist env_ok world0 [(''Emergency'', [(''100'', 1024)])]
            ''outputs'' ''../evil.png'') = Inr ''outputs/../evil.png''
   \<and> \<not> in_dir ''outputs'' ''outputs/../evil.png''"
  by (simp add: run_invalid run_summary_no_ext run_summary_dotdot)
     (simp add: world0_def path_eval)

text \<open>
  C7, amended. \<open>ensure_outdir\<close> creates an absent directory whenever the system allows it
  and accepts an existing one unchanged in every environment, so creating it again
  succeeds. An invocation of \<open>simulate_fsm_quantum\<close> that passes the input check leaves
  the directory in place also when a later step fails, and \<open>save_summary_hist\<close> does so
  likewise. After a successful \<open>simulate_fsm_quantum\<close> the second and third component
  returned are \<open>circuit_<tag>.png\<close> and \<open>hist_<tag>.png\<close> joined to the directory, the
  files added are exactly the images written for these two paths, and the same invocation
  run again on the resulting world returns the same triple; for a tag without a slash the
  images written are the two paths themselves, in the directory. \<open>save_summary_hist\<close>
  returns the file name joined to its directory and adds exactly the image written for
  it; for a file name without a slash that has an extension this is the path returned,
  in the directory. Left out, the directory is \<open>outputs\<close>, the tag \<open>case\<close> and the
  summary \<open>summary_hist.png\<close>.
\<close>

theorem output_files:
  "(outdir \<in> dirs w \<longrightarrow> ensure_outdir e w outdir = (Inr outdir, w))
   \<and> (outdir \<notin> dirs w \<and> can_mkdir e outdir \<longrightarrow>
        ensure_outdir e w outdir = (Inr outdir, w\<lparr>dirs := insert outdir (dirs w)\<rparr>))
   \<and> (length sensors = 6 \<and> (\<forall>v\<in>set sensors. py_eq v (PInt 0) \<or> py_eq v (PInt 1))
        \<and> (outdir \<in> dirs w \<or> can_mkdir e outdir)
      \<longrightarrow> outdir \<in> dirs (snd (simulate_fsm_quantum e w sensors shots tag outdir show)))
   \<and> (outdir \<in> dirs w \<or> can_mkdir e outdir
      \<longrightarrow> outdir \<in> dirs (snd (save_summary_hist e w counts_dict outdir filename)))
   \<and> (simulate_fsm_quantum e w sensors shots tag outdir show = (Inr (cnts, cp, hp), w') \<longrightarrow>
        cp = os_path_join outdir (''circuit_'' @ tag @ ''.png'')
      \<and> hp = os_path_join outdir (''hist_'' @ tag @ ''.png'')
      \<and> files w' = files w \<union> {savefig_target cp, savefig_target hp}
      \<and> outdir \<in> dirs w'
      \<and> (\<forall>e2. ensure_outdir e2 w' outdir = (Inr outdir, w'))
      \<and> (\<exists>w2. simulate_fsm_quantum e w' sensors shots tag outdir show
                  = (Inr (cnts, cp, hp), w2))
      \<and> (CHR ''/'' \<notin> set tag \<longrightarrow>
            files w' = files w \<union> {cp, hp} \<and> in_dir outdir cp \<and> in_dir outdir hp))
   \<and> (save_summary_hist e w counts_dict outdir filename = (Inr p, w'') \<longrightarrow>
        p = os_path_join outdir filename
      \<and> files w'' = insert (savefig_target p) (files w)
      \<and> outdir \<in> dirs w''
      \<and> (CHR ''/'' \<notin> set filename \<and> drop 1 (splitext_ext filename) \<noteq> [] \<longrightarrow>
            files w'' = insert p (files w) \<and> in_dir outdir p))
   \<and> (save_summary_hist_default e w counts_dict = (Inr p, w'') \<longrightarrow>
        p = ''outputs/summary_hist.png'' \<and> files w'' = insert p (files w)
      \<and> ''outputs'' \<in> dirs w'' \<and> in_dir ''outputs'' p)
   \<and> (simulate_fsm_quantum_default e w sensors = (Inr (cnts, cp, hp), w') \<longrightarrow>
        cp = ''outputs/circuit_case.png'' \<and> hp = ''outputs/hist_case.png''
      \<and> files w' = files w \<union> {cp, hp} \<and> ''outputs'' \<in> dirs w')"
proof (intro conjI impI)
  assume "outdir \<in> dirs w"
  then show "ensure_outdir e w outdir = (Inr outdir, w)"
    by (simp add: ensure_outdir_def)
next
  assume "outdir \<notin> dirs w \<and> can_mkdir e outdir"
  then show "ensure_outdir e w outdir = (Inr outdir, w\<lparr>dirs := insert outdir (dirs w)\<rparr>)"
    by (simp add: ensure_outdir_def)
next
  assume "length sensors = 6 \<and> (\<forall>v\<in>set sensors. py_eq v (PInt 0) \<or> py_eq v (PInt 1))
        \<and> (outdir \<in> dirs w \<or> can_mkdir e outdir)"
  then show "outdir \<in> dirs (snd (simulate_fsm_quantum e w sensors shots tag outdir show))"
    by (auto simp: simulate_flat py_in_01)
next
  assume "outdir \<in> dirs w \<or> can_mkdir e outdir"
  then show "outdir \<in> dirs (snd (save_summary_hist e w counts_dict outdir filename))"
    by (auto simp: summary_flat)
next
  assume run: "simulate_fsm_quantum e w sensors shots tag outdir show = (Inr (cnts, cp, hp), w')"
  note f = simulate_Inr [OF run]
  show cp: "cp = os_path_join outdir (''circuit_'' @ tag @ ''.png'')" by (rule f(5))
  show hp: "hp = os_path_join outdir (''hist_'' @ tag @ ''.png'')" by (rule f(6))
  show fl: "files w' = files w \<union> {savefig_target cp, savefig_target hp}" using f(7) by auto
  show d: "outdir \<in> dirs w'" using f(7) by simp
  show "\<forall>e2. ensure_outdir e2 w' outdir = (Inr outdir, w')"
    using d by (simp add: ensure_outdir_def)
  show "\<exists>w2. simulate_fsm_quantum e w' sensors shots tag outdir show = (Inr (cnts, cp, hp), w2)"
    using run d by (auto simp: simulate_flat split: if_splits)
  assume plain: "CHR ''/'' \<notin> set tag"
  have tc: "savefig_target cp = cp" unfolding cp using plain by (rule target_circuit)
  have th: "savefig_target hp = hp" unfolding hp using plain by (rule target_hist)
  show "files w' = files w \<union> {cp, hp}" using fl tc th by simp
  show "in_dir outdir cp"
    unfolding cp using plain by (intro in_dir_join) simp_all
  show "in_dir outdir hp"
    unfolding hp using plain by (intro in_dir_join) simp_all
next
  assume s: "save_summary_hist e w counts_dict outdir filename = (Inr p, w'')"
  show p: "p = os_path_join outdir filename"
    using s by (auto simp: summary_flat split: if_splits)
  show fl: "files w'' = insert (savefig_target p) (files w)"
    using s by (auto simp: summary_flat split: if_splits)
  show "outdir \<in> dirs w''"
    using s by (auto simp: summary_flat split: if_splits)
  assume name: "CHR ''/'' \<notin> set filename \<and> drop 1 (splitext_ext filename) \<noteq> []"
  then have ne: "filename \<noteq> []"
    by (auto simp: splitext_ext_def basename_def ext_of_name_def)
  have t: "savefig_target p = p"
    unfolding p using name by (intro target_has_ext) simp_all
  show "files w'' = insert p (files w)" using fl t by simp
  show "in_dir outdir p"
    unfolding p using name ne by (intro in_dir_join) simp_all
next
  assume s: "save_summary_hist_default e w counts_dict = (Inr p, w'')"
  show p: "p = ''outputs/summary_hist.png''"
    using s by (auto simp: save_summary_hist_default_def summary_flat os_path_join_def
        split: if_splits)
  have "files w'' = insert (savefig_target ''outputs/summary_hist.png'') (files w)"
    using s by (auto simp: save_summary_hist_default_def summary_flat os_path_join_def
        split: if_splits)
  then show "files w'' = insert p (files w)"
    unfolding p by (simp add: path_eval)
  show "''outputs'' \<in> dirs w''"
    using s by (auto simp: save_summary_hist_default_def summary_flat split: if_splits)
  show "in_dir ''outputs'' p"
    unfolding p by (simp add: path_eval)
next
  assume run: "simulate_fsm_quantum_default e w sensors = (Inr (cnts, cp, hp), w')"
  note f = simulate_Inr [OF run [unfolded simulate_fsm_quantum_default_def]]
  show cp: "cp = ''outputs/circuit_case.png''" using f(5) by (simp add: os_path_join_def)
  show hp: "hp = ''outputs/hist_case.png''" using f(6) by (simp add: os_path_join_def)
  show "files w' = files w \<union> {cp, hp}"
    using f(7) unfolding cp hp by (auto simp: path_eval)
  show "''outputs'' \<in> dirs w'" using f(7) by simp
qed

lemma run_default:
  "simulate_fsm_quantum_default env_ok world0 [PInt 0, PInt 1, PInt 0, PInt 1, PInt 1, PInt 1]
   = (Inr ([(''000'', 1024)], ''outputs/circuit_case.png'', ''outputs/hist_case.png''),
      \<lparr>dirs = {''outputs''},
       files = {''outputs/hist_case.png'', ''outputs/circuit_case.png''},
       figs = []\<rparr>)"
  by (simp add: simulate_fsm_quantum_default_def simulate_flat py_in_01 env_ok_def world0_def
      get_counts_pos shot_label_build path_eval)

lemma run_summary_default:
  "save_summary_hist_default env_ok world0 [(''Emergency'', [(''100'', 1024)])]
   = (Inr ''outputs/summary_hist.png'',
      \<lparr>dirs = {''outputs''}, files = {''outputs/summary_hist.png''}, figs = [1]\<rparr>)"
  by (simp add: save_summary_hist_default_def summary_flat env_ok_def world0_def
      path_eval next_num_def)

theorem output_files_witness:
  "ensure_outdir env_ok world0 ''outputs''
     = (Inr ''outputs'', world0\<lparr>dirs := insert ''outputs'' (dirs world0)\<rparr>)
   \<and> ''outputs'' \<in> dirs (snd (simulate_fsm_quantum env_backend_down world0
         [PInt 0, PInt 0, PInt 0, PInt 0, PInt 0, PInt 0] 1024 ''case'' ''outputs'' False))
   \<and> files \<lparr>dirs = {''outputs''},
        files = {''outputs/hist_emergency.png'', ''outputs/circuit_emergency.png''},
        figs = []\<rparr>
       = files world0 \<union> {''outputs/circuit_emergency.png'', ''outputs/hist_emergency.png''}
   \<and> in_dir ''outputs'' ''outputs/circuit_emergency.png''
   \<and> files \<lparr>dirs = {''outputs''}, files = {''outputs/summary_hist.png''}, figs = [1]\<rparr>
       = insert ''outputs/summary_hist.png'' (files world0)
   \<and> in_dir ''outputs'' ''outputs/summary_hist.png''
   \<and> ''outputs'' \<in> dirs \<lparr>dirs = {''outputs''}, files = {''outputs/summary_hist.png''},
         figs = [1]\<rparr>
   \<and> ''outputs'' \<in> dirs \<lparr>dirs = {''outputs''},
         files = {''outputs/hist_case.png'', ''outputs/circuit_case.png''}, figs = []\<rparr>"
proof (intro conjI)
  have h: "''outputs'' \<notin> dirs world0 \<and> can_mkdir env_ok ''outputs''"
    by (simp add: world0_def env_ok_def)
  show "ensure_outdir env_ok world0 ''outputs''
     = (Inr ''outputs'', world0\<lparr>dirs := insert ''outputs'' (dirs world0)\<rparr>)"
    by (rule output_files [THEN conjunct2, THEN conjunct1, THEN mp, OF h])
next
  have h: "length [PInt 0, PInt 0, PInt 0, PInt 0, PInt 0, PInt 0] = 6
      \<and> (\<forall>v\<in>set [PInt 0, PInt 0, PInt 0, PInt 0, PInt 0, PInt 0].
            py_eq v (PInt 0) \<or> py_eq v (PInt 1))
      \<and> (''outputs'' \<in> dirs world0 \<or> can_mkdir env_backend_down ''outputs'')"
    by (simp add: env_backend_down_def env_ok_def)
  show "''outputs'' \<in> dirs (snd (simulate_fsm_quantum env_backend_down world0
         [PInt 0, PInt 0, PInt 0, PInt 0, PInt 0, PInt 0] 1024 ''case'' ''outputs'' False))"
    by (rule output_files
          [THEN conjunct2, THEN conjunct2, THEN conjunct1, THEN mp, OF h])
next
  have plain: "CHR ''/'' \<notin> set ''emergency''" by simp
  note a = output_files [THEN conjunct2, THEN conjunct2, THEN conjunct2, THEN conjunct2,
      THEN conjunct1, THEN mp, OF run_emergency]
  note b = a [THEN conjunct2, THEN conjunct2, THEN conjunct2, THEN conjunct2,
      THEN conjunct2, THEN conjunct2, THEN mp, OF plain]
  show "files \<lparr>dirs = {''outputs''},
        files = {''outputs/hist_emergency.png'', ''outputs/circuit_emergency.png''},
        figs = []\<rparr>
       = files world0 \<union> {''outputs/circuit_emergency.png'', ''outputs/hist_emergency.png''}"
    by (rule b [THEN conjunct1])
  show "in_dir ''outputs'' ''outputs/circuit_emergency.png''"
    by (rule b [THEN conjunct2, THEN conjunct1])
next
  have name: "CHR ''/'' \<notin> set ''summary_hist.png''
      \<and> drop 1 (splitext_ext ''summary_hist.png'') \<noteq> []"
    by (simp add: path_eval)
  note a = output_files [THEN conjunct2, THEN conjunct2, THEN conjunct2, THEN conjunct2,
      THEN conjunct2, THEN conjunct1, THEN mp, OF run_summary]
  note b = a [THEN conjunct2, THEN conjunct2, THEN conjunct2, THEN mp, OF name]
  show "files \<lparr>dirs = {''outputs''}, files = {''outputs/summary_hist.png''}, figs = [1]\<rparr>
       = insert ''outputs/summary_hist.png'' (files world0)"
    by (rule b [THEN conjunct1])
  show "in_dir ''outputs'' ''outputs/summary_hist.png''"
    by (rule b [THEN conjunct2])
next
  note c = output_files [THEN conjunct2, THEN conjunct2, THEN conjunct2, THEN conjunct2,
      THEN conjunct2, THEN conjunct2, THEN conjunct1, THEN mp, OF run_summary_default]
  show "''outputs'' \<in> dirs \<lparr>dirs = {''outputs''}, files = {''outputs/summary_hist.png''},
         figs = [1]\<rparr>"
    by (rule c [THEN conjunct2, THEN conjunct2, THEN conjunct1])
next
  note d = output_files [THEN conjunct2, THEN conjunct2, THEN conjunct2, THEN conjunct2,
      THEN conjunct2, THEN conjunct2, THEN conjunct2, THEN mp, OF run_default]
  show "''outputs'' \<in> dirs \<lparr>dirs = {''outputs''},
         files = {''outputs/hist_case.png'', ''outputs/circuit_case.png''}, figs = []\<rparr>"
    by (rule d [THEN conjunct2, THEN conjunct2, THEN conjunct2])
qed

section \<open>Determinism\<close>

text \<open>
  C8. The circuit of every successful run is a list of X gates, one for each sensor that
  reads 0, followed by the one multi-controlled X on qubits 0..5 with target 6 and the
  three measurements; nothing in it creates a superposition. Its outcome is the same in
  every shot: the counts returned are the singleton that gives all \<open>shots\<close> to one
  bitstring, \<open>100\<close> if all sensors read 0 and \<open>000\<close> otherwise.
\<close>

theorem deterministic_counts:
  assumes "simulate_fsm_quantum e w sensors shots tag outdir show = (Inr (cnts, cp, hp), w')"
  shows "cnts = [(if \<forall>v\<in>set sensors. py_eq v (PInt 0) then ''100'' else ''000'', shots)]
    \<and> data (build_circuit sensors)
        = map (\<lambda>p. XGate (fst p))
            (filter (\<lambda>p. py_eq (snd p) (PInt 0)) (enumerate 0 sensors))
          @ [MCXGate [0, 1, 2, 3, 4, 5] 6, Measure 6 2, Measure 7 1, Measure 8 0]"
  using simulate_Inr(1) [OF assms] simulate_Inr(4) [OF assms]
  by (simp add: shot_label_build build_circuit_data list_all_iff)

theorem deterministic_counts_witness:
  "[(''000'', 1024::int)]
     = [(if \<forall>v\<in>set [PInt 1, PInt 1, PInt 1, PInt 1, PInt 1, PInt 1]. py_eq v (PInt 0)
         then ''100'' else ''000'', 1024)]
   \<and> data (build_circuit [PInt 1, PInt 1, PInt 1, PInt 1, PInt 1, PInt 1])
       = [MCXGate [0, 1, 2, 3, 4, 5] 6, Measure 6 2, Measure 7 1, Measure 8 0]"
  using deterministic_counts [OF run_normal] by (simp add: enumerate_eq_zip)

lemma run_alarm:
  "simulate_fsm_quantum (env_ok\<lparr>interactive := True\<rparr>) world0
      [PInt 0, PInt 0, PInt 0, PInt 0, PInt 0, PInt 0] 1024 ''alarm'' ''plots'' True
   = (Inr (get_counts (build_circuit [PInt 0, PInt 0, PInt 0, PInt 0, PInt 0, PInt 0]) 1024,
           ''plots/circuit_alarm.png'', ''plots/hist_alarm.png''),
      \<lparr>dirs = {''plots''},
       files = {''plots/hist_alarm.png'', ''plots/circuit_alarm.png''},
       figs = []\<rparr>)"
  by (simp add: simulate_flat py_in_01 env_ok_def world0_def path_eval)

text \<open>
  C9. The counts depend on the sensors and the shot count only: two successful runs on
  the same sensors and shot count return equal counts, whatever their tags, output
  directories, \<open>show\<close> flags, environments and worlds.
\<close>

theorem counts_independent_of_tag_outdir_show:
  assumes "simulate_fsm_quantum e1 w1 sensors shots tag1 outdir1 show1
             = (Inr (cnts1, cp1, hp1), w1')"
    and "simulate_fsm_quantum e2 w2 sensors shots tag2 outdir2 show2
             = (Inr (cnts2, cp2, hp2), w2')"
  shows "cnts1 = cnts2"
  using simulate_Inr(4) [OF assms(1)] simulate_Inr(4) [OF assms(2)] by simp

theorem counts_independent_of_tag_outdir_show_witness:
  "get_counts (build_circuit [PInt 0, PInt 0, PInt 0, PInt 0, PInt 0, PInt 0]) 1024
     = [(''100'', 1024)]"
  by (rule counts_independent_of_tag_outdir_show [OF run_alarm run_emergency])

section \<open>Boolean sensor values\<close>

lemma x_loop_bools:
  "x_loop qc (enumerate n (map PBool bs))
     = x_loop qc (enumerate n (map (\<lambda>b. PInt (if b then 1 else 0)) bs))"
  by (induction bs arbitrary: n qc) simp_all

lemma build_circuit_bools:
  "build_circuit (map PBool bs) = build_circuit (map (\<lambda>b. PInt (if b then 1 else 0)) bs)"
  by (simp add: build_circuit_def x_loop_bools)

text \<open>
  C10. A list of six Python booleans passes the input check: the run never raises the
  \<open>ValueError\<close>, and it is, in result and in effects, the run on the list with 0 for
  \<open>False\<close> and 1 for \<open>True\<close>. So \<open>False\<close> counts as abnormal and \<open>True\<close> as normal:
  one shot is labelled \<open>100\<close> exactly when every element is \<open>False\<close>.
\<close>

theorem booleans_accepted:
  assumes "length bs = 6"
  shows "simulate_fsm_quantum e w (map PBool bs) shots tag outdir show
       = simulate_fsm_quantum e w (map (\<lambda>b. PInt (if b then 1 else 0)) bs) shots tag outdir show
    \<and> (\<forall>msg. fst (simulate_fsm_quantum e w (map PBool bs) shots tag outdir show)
          \<noteq> Inl (ValueError msg))
    \<and> shot_label (build_circuit (map PBool bs)) = (if True \<in> set bs then ''000'' else ''100'')"
proof (intro conjI)
  have v1: "\<not> (\<exists>v\<in>set (map PBool bs). \<not> py_in v [PInt 0, PInt 1])"
    by (auto simp: py_in_01)
  have v2: "\<not> (\<exists>v\<in>set (map (\<lambda>b. PInt (if b then 1 else 0)) bs). \<not> py_in v [PInt 0, PInt 1])"
    by (auto simp: py_in_01)
  show "simulate_fsm_quantum e w (map PBool bs) shots tag outdir show
       = simulate_fsm_quantum e w (map (\<lambda>b. PInt (if b then 1 else 0)) bs) shots tag outdir show"
    unfolding simulate_flat using assms v1 v2 by (simp add: build_circuit_bools)
  show "\<forall>msg. fst (simulate_fsm_quantum e w (map PBool bs) shots tag outdir show)
          \<noteq> Inl (ValueError msg)"
    unfolding simulate_flat using assms v1 by simp
  show "shot_label (build_circuit (map PBool bs)) = (if True \<in> set bs then ''000'' else ''100'')"
    using assms by (auto simp: shot_label_build list_all_iff)
qed

theorem booleans_accepted_witness:
  "simulate_fsm_quantum env_ok world0 (map PBool [False, False, False, False, False, False])
       1024 ''emergency'' ''outputs'' False
     = (Inr ([(''100'', 1024)], ''outputs/circuit_emergency.png'', ''outputs/hist_emergency.png''),
        \<lparr>dirs = {''outputs''},
         files = {''outputs/hist_emergency.png'', ''outputs/circuit_emergency.png''},
         figs = []\<rparr>)
   \<and> shot_label (build_circuit (map PBool [False, True, False, False, False, False])) = ''000''"
proof -
  have a: "length [False, False, False, False, False, False] = 6"
    and b: "length [False, True, False, False, False, False] = 6" by simp_all
  show ?thesis
    using booleans_accepted [OF a, of env_ok world0 1024 "''emergency''" "''outputs''" False]
      booleans_accepted [OF b, of env_ok world0 1024 "''emergency''" "''outputs''" False]
      run_emergency
    by simp
qed

end
